theory Spec2Isabelle
  imports Complex_Main
begin

section \<open>Data model\<close>

text \<open>
  The development embeds \<^verbatim>\<open>compute_score\<close> and \<^verbatim>\<open>spectral_eta_trick3\<close> of
  \<^verbatim>\<open>spectral_eta_trick_.py\<close>.

  Exceptions of the source are values: \<open>AssertionError\<close> is the \<^verbatim>\<open>assert(n == n2)\<close> of the
  solver, \<open>IndexError\<close> an index array that reaches outside the indexed array,
  \<open>UFuncTypeError\<close> numpy's refusal to write a float result into an integer array in an
  in-place operation, \<open>ValueError\<close> operands whose shapes do not fit, and \<open>EmbedderError\<close>
  any failure of the external \<^verbatim>\<open>spectral_embedding\<close>.
\<close>

datatype error = AssertionError | IndexError | UFuncTypeError | ValueError | EmbedderError

text \<open>
  The band parameter \<^verbatim>\<open>dh\<close> is a Python number: the source tests
  \<^verbatim>\<open>isinstance(dh, int)\<close>, so the model keeps the two cases apart.
\<close>

datatype pynum = PyInt int | PyFloat real

fun num_val :: "pynum \<Rightarrow> real" where
  "num_val (PyInt k) = real_of_int k"
| "num_val (PyFloat x) = x"

text \<open>Python's \<^verbatim>\<open>int(x)\<close> on a float, and numpy's cast of a float to an integer cell: truncation
  toward zero.\<close>

definition trunc :: "real \<Rightarrow> int" where
  "trunc x = (if 0 \<le> x then \<lfloor>x\<rfloor> else \<lceil>x\<rceil>)"

fun py_int :: "pynum \<Rightarrow> int" where
  "py_int (PyInt k) = k"
| "py_int (PyFloat x) = trunc x"

text \<open>
  A similarity matrix is a dense grid (a list of rows) or a scipy COO matrix: its shape and
  the parallel arrays \<^verbatim>\<open>row\<close>, \<^verbatim>\<open>col\<close>, \<^verbatim>\<open>data\<close>, kept here as one list of triples in
  storage order. Stored entries may repeat a position or hold an explicit zero.
  Index arrays hold naturals (the negative indices of numpy are outside the model);
  integers are unbounded (the source's fixed-width numpy integers do not wrap for the
  sizes considered), and floats are reals.
\<close>

datatype matrix = Dense "real list list" | Sparse nat nat "(nat \<times> nat \<times> real) list"

fun shape :: "matrix \<Rightarrow> nat \<times> nat" where
  "shape (Dense rows) = (length rows, (case rows of [] \<Rightarrow> 0 | r # _ \<Rightarrow> length r))"
| "shape (Sparse n m es) = (n, m)"

fun issparse :: "matrix \<Rightarrow> bool" where
  "issparse (Dense rows) = False"
| "issparse (Sparse n m es) = True"

text \<open>The representation invariant of a square matrix: a dense grid is \<open>n\<close> rows of length
  \<open>n\<close>; the indices of a COO matrix lie inside its shape.\<close>

fun square :: "matrix \<Rightarrow> bool" where
  "square (Dense rows) = list_all (\<lambda>r. length r = length rows) rows"
| "square (Sparse n m es) = (n = m \<and> list_all (\<lambda>(r, c, v). r < n \<and> c < m) es)"



section \<open>The score function\<close>

text \<open>
  \<^verbatim>\<open>is_in_band = (d2diag <= dh); if circular: is_in_band += (d2diag >= n - dh)\<close>
  (on booleans \<^verbatim>\<open>+=\<close> is disjunction).
\<close>

definition is_in_band :: "bool \<Rightarrow> nat \<Rightarrow> int \<Rightarrow> int \<Rightarrow> bool" where
  "is_in_band circular n dh d = (d \<le> dh \<or> (circular \<and> d \<ge> int n - dh))"

text \<open>
  The \<^verbatim>\<open>if/elif\<close> chain on \<^verbatim>\<open>score_function\<close>, applied to one cell of the distance array
  when \<^verbatim>\<open>dh\<close> is an integer. Any other string (so also \<^verbatim>\<open>'1SUM'\<close>) leaves the distance as
  it is. The flag \<^verbatim>\<open>circular\<close> only enters through the band test.
\<close>

definition loss_transform :: "string \<Rightarrow> bool \<Rightarrow> nat \<Rightarrow> int \<Rightarrow> int \<Rightarrow> int" where
  "loss_transform score_function circular n dh d =
     (if score_function = ''2SUM'' then d ^ 2
      else if score_function = ''Huber'' then
        (if is_in_band circular n dh d then d ^ 2 else d * (2 * dh) - dh ^ 2)
      else if score_function = ''R2S'' then
        (if is_in_band circular n dh d then d ^ 2 else dh ^ 2)
      else d)"

text \<open>
  The same chain in the dense path when \<^verbatim>\<open>dh\<close> is a float (the dense path does not coerce
  it): the band test compares with the float, and \<^verbatim>\<open>d2diagv[out_band] = dh**2\<close> stores the
  float in an integer cell.
\<close>

definition loss_transform_float :: "string \<Rightarrow> bool \<Rightarrow> nat \<Rightarrow> real \<Rightarrow> int \<Rightarrow> int" where
  "loss_transform_float score_function circular n x d =
     (if score_function = ''2SUM'' then d ^ 2
      else if score_function = ''R2S'' then
        (if real_of_int d \<le> x \<or> (circular \<and> real_of_int d \<ge> real n - x)
         then d ^ 2 else trunc (x ^ 2))
      else d)"

text \<open>Sparse path: \<^verbatim>\<open>abs(perm[r] - perm[c])\<close>, or \<^verbatim>\<open>abs(r - c)\<close> without a permutation.\<close>

definition d2diag_sparse :: "nat list option \<Rightarrow> (nat \<times> nat \<times> real) list \<Rightarrow> error + int list" where
  "d2diag_sparse perm es =
     (case perm of
        None \<Rightarrow> Inr (map (\<lambda>(r, c, v). \<bar>int r - int c\<bar>) es)
      | Some p \<Rightarrow>
          if list_all (\<lambda>(r, c, v). r < length p \<and> c < length p) es
          then Inr (map (\<lambda>(r, c, v). \<bar>int (p ! r) - int (p ! c)\<bar>) es)
          else Inl IndexError)"

text \<open>Dense path: \<^verbatim>\<open>X_p = X.copy()[perm, :]; X_p = X_p.T[perm, :].T\<close>, so
  \<open>X_p[a][b] = X[perm[a]][perm[b]]\<close>.\<close>

definition permute_dense :: "nat list option \<Rightarrow> real list list \<Rightarrow> error + real list list" where
  "permute_dense perm rows =
     (case perm of
        None \<Rightarrow> Inr rows
      | Some p \<Rightarrow>
          if list_all (\<lambda>i. i < length rows) p
             \<and> list_all (\<lambda>i. i < snd (shape (Dense rows))) p
          then Inr (map (\<lambda>a. map (\<lambda>b. rows ! a ! b) p) p)
          else Inl IndexError)"

text \<open>Dense path: the transformed \<^verbatim>\<open>d2diagv = np.arange(n)\<close>. With a float \<^verbatim>\<open>dh\<close> the
  in-place \<^verbatim>\<open>d2diagv[out_band] *= 2 * dh\<close> of the Huber branch is refused by numpy.\<close>

definition d2diagv_dense :: "string \<Rightarrow> pynum \<Rightarrow> bool \<Rightarrow> nat \<Rightarrow> error + int list" where
  "d2diagv_dense score_function dh circular n =
     (case dh of
        PyInt k \<Rightarrow> Inr (map (\<lambda>d. loss_transform score_function circular n k (int d)) [0..<n])
      | PyFloat x \<Rightarrow>
          if score_function = ''Huber'' then Inl UFuncTypeError
          else Inr (map (\<lambda>d. loss_transform_float score_function circular n x (int d)) [0..<n]))"

text \<open>\<^verbatim>\<open>toeplitz(d2diagv)[a][b] = d2diagv[|a - b|]\<close>.\<close>

definition toeplitz :: "int list \<Rightarrow> nat \<Rightarrow> nat \<Rightarrow> int" where
  "toeplitz d2diagv a b = d2diagv ! (if a \<le> b then b - a else a - b)"

text \<open>
  \<^verbatim>\<open>compute_score(X, score_function, dh, perm, circular)\<close>. In the sparse path \<open>n\<close> is the
  number of rows of \<open>X\<close> and \<^verbatim>\<open>dh\<close> is coerced by \<^verbatim>\<open>int(dh)\<close>; in the dense path \<open>n\<close> is the
  number of rows of \<open>X_p\<close> and \<^verbatim>\<open>dh\<close> is used as given. The dense product
  \<^verbatim>\<open>np.multiply(X_p, D2diag_mat)\<close> needs \<open>X_p\<close> to be \<open>n\<close> by \<open>n\<close>.
\<close>

fun compute_score :: "matrix \<Rightarrow> string \<Rightarrow> pynum \<Rightarrow> nat list option \<Rightarrow> bool \<Rightarrow> error + real" where
  "compute_score (Sparse n m es) score_function dh perm circular =
     (case d2diag_sparse perm es of
        Inl e \<Rightarrow> Inl e
      | Inr d2diag \<Rightarrow>
          Inr (sum_list (map2 (\<lambda>v d. v * real_of_int d)
                 (map (\<lambda>(r, c, v). v) es)
                 (map (loss_transform score_function circular n (py_int dh)) d2diag))))"
| "compute_score (Dense rows) score_function dh perm circular =
     (case permute_dense perm rows of
        Inl e \<Rightarrow> Inl e
      | Inr X_p \<Rightarrow>
          (case d2diagv_dense score_function dh circular (length X_p) of
             Inl e \<Rightarrow> Inl e
           | Inr d2diagv \<Rightarrow>
               if \<not> square (Dense X_p) then Inl ValueError
               else Inr (sum_list (map (\<lambda>a. sum_list (map (\<lambda>b.
                      X_p ! a ! b * real_of_int (toeplitz d2diagv a b))
                      [0..<length X_p])) [0..<length X_p]))))"







section \<open>The solver\<close>

text \<open>
  \<^verbatim>\<open>spectral_embedding\<close> is an external collaborator: the model takes it as a parameter, a
  function of the reweighted matrix and \<^verbatim>\<open>n_components\<close> (its other keyword arguments are
  passed through unchanged by the solver and are part of the parameter) to an embedding, a
  list of \<open>n\<close> rows of coordinates, or a failure. An embedding with another number of rows
  than \<open>n\<close> breaks the collaborator's contract and is treated as its failure.
\<close>

type_synonym embedder = "matrix \<Rightarrow> nat \<Rightarrow> error + real list list"

text \<open>\<^verbatim>\<open>np.argsort\<close>: the indices in ascending order of the values (ties in index order).\<close>

definition argsort :: "'a::linorder list \<Rightarrow> nat list" where
  "argsort xs = sort_key (\<lambda>i. xs ! i) [0..<length xs]"

text \<open>\<^verbatim>\<open>embedding[:, k]\<close>.\<close>

definition column :: "real list list \<Rightarrow> nat \<Rightarrow> error + real list" where
  "column embedding k =
     (if list_all (\<lambda>row. k < length row) embedding
      then Inr (map (\<lambda>row. row ! k) embedding) else Inl IndexError)"

text \<open>
  One cell of \<^verbatim>\<open>eta_add\<close> for dimension \<open>dm\<close> (the source's \<^verbatim>\<open>dim\<close>), from the rank distance \<open>d\<close> of the pair:
  \<^verbatim>\<open>np.minimum(eta_add, n - eta_add)\<close> if circular, \<^verbatim>\<open>np.maximum(dh, eta_add)\<close>, and
  \<^verbatim>\<open>eta_add * 1./np.sqrt(1 + dim)\<close> if \<^verbatim>\<open>avg_scaling\<close>.
\<close>

definition eta_add_cell :: "pynum \<Rightarrow> bool \<Rightarrow> bool \<Rightarrow> nat \<Rightarrow> nat \<Rightarrow> int \<Rightarrow> real" where
  "eta_add_cell dh circular avg_scaling n dm d =
     (let d1 = (if circular then min d (int n - d) else d);
          d2 = max (num_val dh) (real_of_int d1)
      in if avg_scaling then d2 * 1 / sqrt (1 + real dm) else d2)"

text \<open>\<^verbatim>\<open>d_perm = np.argsort(embedding[:, dim]); d_perm = np.argsort(d_perm)\<close>.\<close>

definition d_perm_of :: "real list list \<Rightarrow> nat \<Rightarrow> error + nat list" where
  "d_perm_of embedding dm =
     (case column embedding dm of Inl e \<Rightarrow> Inl e | Inr col \<Rightarrow> Inr (argsort (argsort col)))"

text \<open>Sparse path: \<^verbatim>\<open>eta_add = abs(d_perm[r] - d_perm[c])\<close> and its clamping.\<close>

definition eta_add_sparse ::
  "real list list \<Rightarrow> (nat \<times> nat \<times> real) list \<Rightarrow> pynum \<Rightarrow> bool \<Rightarrow> bool \<Rightarrow> nat \<Rightarrow> nat
     \<Rightarrow> error + real list" where
  "eta_add_sparse embedding es dh circular avg_scaling n dm =
     (case d_perm_of embedding dm of
        Inl e \<Rightarrow> Inl e
      | Inr d_perm \<Rightarrow>
          if list_all (\<lambda>(r, c, v). r < length d_perm \<and> c < length d_perm) es
          then Inr (map (\<lambda>(r, c, v). eta_add_cell dh circular avg_scaling n dm
                      \<bar>int (d_perm ! r) - int (d_perm ! c)\<bar>) es)
          else Inl IndexError)"

text \<open>Dense path: \<^verbatim>\<open>eta_add = abs(np.tile(d_perm, n) - np.repeat(d_perm, n))\<close>, a flat array
  whose cell \<open>k\<close> is \<open>|d_perm[k mod n] - d_perm[k div n]|\<close>, and its clamping.\<close>

definition eta_add_dense ::
  "real list list \<Rightarrow> pynum \<Rightarrow> bool \<Rightarrow> bool \<Rightarrow> nat \<Rightarrow> nat \<Rightarrow> error + real list" where
  "eta_add_dense embedding dh circular avg_scaling n dm =
     (case d_perm_of embedding dm of
        Inl e \<Rightarrow> Inl e
      | Inr d_perm \<Rightarrow>
          if length d_perm = n
          then Inr (map (\<lambda>k. eta_add_cell dh circular avg_scaling n dm
                      \<bar>int (d_perm ! (k mod n)) - int (d_perm ! (k div n))\<bar>) [0..<n * n])
          else Inl ValueError)"

text \<open>The loop \<^verbatim>\<open>for dim in range(d_): ...; eta += eta_add\<close>, over the dimensions left.\<close>

fun eta_accumulate :: "(nat \<Rightarrow> error + real list) \<Rightarrow> nat list \<Rightarrow> real list \<Rightarrow> error + real list" where
  "eta_accumulate eta_add [] eta = Inr eta"
| "eta_accumulate eta_add (dm # dims) eta =
     (case eta_add dm of
        Inl e \<Rightarrow> Inl e
      | Inr add \<Rightarrow> eta_accumulate eta_add dims (map2 (+) eta add))"

text \<open>The weight update of the sparse path: from \<^verbatim>\<open>np.zeros(len(r))\<close>, over
  \<^verbatim>\<open>d_ = min(avg_dim, n-1)\<close> dimensions.\<close>

definition weight_update_sparse ::
  "real list list \<Rightarrow> (nat \<times> nat \<times> real) list \<Rightarrow> pynum \<Rightarrow> bool \<Rightarrow> bool \<Rightarrow> nat \<Rightarrow> nat
     \<Rightarrow> error + real list" where
  "weight_update_sparse embedding es dh circular avg_scaling n avg_dim =
     eta_accumulate (eta_add_sparse embedding es dh circular avg_scaling n)
       [0..<min avg_dim (n - 1)] (replicate (length es) 0)"

text \<open>The weight update of the dense path: from \<^verbatim>\<open>np.identity(n).flatten()\<close>, reshaped to
  \<open>n\<close> by \<open>n\<close> at the end.\<close>

definition identity_flat :: "nat \<Rightarrow> real list" where
  "identity_flat n = map (\<lambda>k. if k div n = k mod n then 1 else 0) [0..<n * n]"

definition reshape :: "nat \<Rightarrow> real list \<Rightarrow> real list list" where
  "reshape n flat = map (\<lambda>a. map (\<lambda>b. flat ! (a * n + b)) [0..<n]) [0..<n]"

definition weight_update_dense ::
  "real list list \<Rightarrow> pynum \<Rightarrow> bool \<Rightarrow> bool \<Rightarrow> nat \<Rightarrow> nat \<Rightarrow> error + real list list" where
  "weight_update_dense embedding dh circular avg_scaling n avg_dim =
     (case eta_accumulate (eta_add_dense embedding dh circular avg_scaling n)
             [0..<min avg_dim (n - 1)] (identity_flat n) of
        Inl e \<Rightarrow> Inl e
      | Inr flat \<Rightarrow> Inr (reshape n flat))"

text \<open>
  The state of the loop. \<open>calls\<close> logs every call of the embedder (the matrix and
  \<^verbatim>\<open>n_components\<close> it got), \<open>iters\<close> counts the loop bodies entered. \<open>eta_old\<close> is the
  variable of that name of the sparse path: set before the loop when a momentum is given,
  and read nowhere.
\<close>

record solver_state =
  best_perm :: "nat list"
  best_score :: real
  calls :: "(matrix \<times> nat) list"
  iters :: nat

record sparse_state = solver_state +
  eta_vec :: "real list"
  eta_old :: "real list option"

record dense_state = solver_state +
  eta_mat :: "real list list"

datatype 's step = Break 's | Continue 's

text \<open>\<^verbatim>\<open>default_dim = 8; if avg_dim > default_dim: default_dim = avg_dim + 1\<close>.\<close>

definition default_dim :: "nat \<Rightarrow> nat" where
  "default_dim avg_dim = (if avg_dim > 8 then avg_dim + 1 else 8)"

text \<open>\<^verbatim>\<open>X_w = X.copy(); X_w.data /= eta_vec\<close>.\<close>

definition reweight_sparse :: "matrix \<Rightarrow> (nat \<times> nat \<times> real) list \<Rightarrow> real list \<Rightarrow> matrix" where
  "reweight_sparse X es eta =
     Sparse (fst (shape X)) (snd (shape X)) (map2 (\<lambda>(r, c, v) e. (r, c, v / e)) es eta)"

text \<open>\<^verbatim>\<open>X_w = np.divide(X, eta_mat)\<close>.\<close>

definition reweight_dense :: "real list list \<Rightarrow> real list list \<Rightarrow> matrix" where
  "reweight_dense rows eta = Dense (map2 (map2 (/)) rows eta)"

text \<open>
  One pass through the body of the sparse loop (\<open>n \<ge> 3\<close>, \<open>es\<close> the triples of \<open>X\<close>): reweight,
  embed, candidate, stop test, orientation, score on the original \<open>X\<close> (the call passes no
  \<^verbatim>\<open>circular\<close>, so its default \<^verbatim>\<open>False\<close>), keep the candidate if its score is lower, weight
  update. Only \<open>best_perm\<close> is assigned after the comparison.
\<close>

definition sparse_body ::
  "embedder \<Rightarrow> matrix \<Rightarrow> (nat \<times> nat \<times> real) list \<Rightarrow> pynum \<Rightarrow> string \<Rightarrow> bool \<Rightarrow> nat \<Rightarrow> bool
     \<Rightarrow> sparse_state \<Rightarrow> error + sparse_state step" where
  "sparse_body emb X es dh score_function circular avg_dim avg_scaling st =
     (let n = fst (shape X);
          X_w = reweight_sparse X es (eta_vec st);
          st1 = st\<lparr>calls := calls st @ [(X_w, default_dim avg_dim)], iters := Suc (iters st)\<rparr>
      in case emb X_w (default_dim avg_dim) of
           Inl e \<Rightarrow> Inl e
         | Inr embedding \<Rightarrow>
             if length embedding \<noteq> n then Inl EmbedderError
             else (case column embedding 0 of
                Inl e \<Rightarrow> Inl e
              | Inr col0 \<Rightarrow>
                  let new_perm = argsort col0 in
                  if new_perm = best_perm st then Inr (Break st1)
                  else
                    let flip = (hd new_perm > last new_perm);
                        embedding' = (if flip then rev embedding else embedding);
                        new_perm' = (if flip then map (\<lambda>p. n - 1 - p) new_perm else new_perm)
                    in case compute_score X score_function dh (Some new_perm') False of
                         Inl e \<Rightarrow> Inl e
                       | Inr new_score \<Rightarrow>
                           (case weight_update_sparse embedding' es dh circular avg_scaling
                                   n avg_dim of
                              Inl e \<Rightarrow> Inl e
                            | Inr eta \<Rightarrow>
                                Inr (Continue (st1\<lparr>
                                  best_perm := (if new_score < best_score st then new_perm'
                                                else best_perm st),
                                  eta_vec := eta\<rparr>)))))"

text \<open>One pass through the body of the dense loop: the stop test and the orientation are
  commented out in the source, so every pass scores and updates the weights.\<close>

definition dense_body ::
  "embedder \<Rightarrow> matrix \<Rightarrow> real list list \<Rightarrow> pynum \<Rightarrow> string \<Rightarrow> bool \<Rightarrow> nat \<Rightarrow> bool
     \<Rightarrow> dense_state \<Rightarrow> error + dense_state step" where
  "dense_body emb X rows dh score_function circular avg_dim avg_scaling st =
     (let n = fst (shape X);
          X_w = reweight_dense rows (eta_mat st);
          st1 = st\<lparr>calls := calls st @ [(X_w, default_dim avg_dim)], iters := Suc (iters st)\<rparr>
      in case emb X_w (default_dim avg_dim) of
           Inl e \<Rightarrow> Inl e
         | Inr embedding \<Rightarrow>
             if length embedding \<noteq> n then Inl EmbedderError
             else (case column embedding 0 of
                Inl e \<Rightarrow> Inl e
              | Inr col0 \<Rightarrow>
                  let new_perm = argsort col0
                  in case compute_score X score_function dh (Some new_perm) False of
                       Inl e \<Rightarrow> Inl e
                     | Inr new_score \<Rightarrow>
                         (case weight_update_dense embedding dh circular avg_scaling n avg_dim of
                            Inl e \<Rightarrow> Inl e
                          | Inr eta \<Rightarrow>
                              Inr (Continue (st1\<lparr>
                                best_perm := (if new_score < best_score st then new_perm
                                              else best_perm st),
                                eta_mat := eta\<rparr>)))))"

text \<open>\<^verbatim>\<open>for it in range(n_iter)\<close>: the first argument counts the passes left.\<close>

fun run_loop :: "('s \<Rightarrow> error + 's step) \<Rightarrow> nat \<Rightarrow> 's \<Rightarrow> error + 's" where
  "run_loop body 0 st = Inr st"
| "run_loop body (Suc k) st =
     (case body st of
        Inl e \<Rightarrow> Inl e
      | Inr (Break st') \<Rightarrow> Inr st'
      | Inr (Continue st') \<Rightarrow> run_loop body k st')"

text \<open>The value returned, with the log of embedder calls and the number of passes.\<close>

record outcome =
  ordering :: "nat list"
  score :: "real option"
  embedder_calls :: "(matrix \<times> nat) list"
  iterations :: nat

definition finish :: "bool \<Rightarrow> ('a solver_state_scheme) \<Rightarrow> outcome" where
  "finish return_score st =
     \<lparr>ordering = best_perm st,
      score = (if return_score then Some (best_score st) else None),
      embedder_calls = calls st, iterations = iters st\<rparr>"

text \<open>Python's truth value of \<^verbatim>\<open>add_momentum\<close>: \<^verbatim>\<open>None\<close> and \<open>0\<close> are false.\<close>

fun truthy :: "real option \<Rightarrow> bool" where
  "truthy None = False"
| "truthy (Some g) = (g \<noteq> 0)"

definition sparse_init :: "nat \<Rightarrow> real \<Rightarrow> (nat \<times> nat \<times> real) list \<Rightarrow> real option \<Rightarrow> sparse_state" where
  "sparse_init n score0 es add_momentum =
     \<lparr>best_perm = [0..<n], best_score = score0, calls = [], iters = 0,
      eta_vec = replicate (length es) 1,
      eta_old = (if truthy add_momentum then Some (replicate (length es) 1) else None)\<rparr>"

definition dense_init :: "nat \<Rightarrow> real \<Rightarrow> dense_state" where
  "dense_init n score0 =
     \<lparr>best_perm = [0..<n], best_score = score0, calls = [], iters = 0,
      eta_mat = replicate n (replicate n 1)\<rparr>"

text \<open>
  \<^verbatim>\<open>spectral_eta_trick3\<close> (without plotting): the shape assertion, the short cut for
  \<open>n < 3\<close>, the score of the identity as first best score, and the loop of the path.
\<close>

definition spectral_eta_trick3 ::
  "embedder \<Rightarrow> matrix \<Rightarrow> nat \<Rightarrow> pynum \<Rightarrow> string \<Rightarrow> bool \<Rightarrow> bool \<Rightarrow> real option \<Rightarrow> nat \<Rightarrow> bool
     \<Rightarrow> error + outcome" where
  "spectral_eta_trick3 emb X n_iter dh score_function return_score circular add_momentum
       avg_dim avg_scaling =
     (let n = fst (shape X); n2 = snd (shape X) in
      if n \<noteq> n2 then Inl AssertionError
      else if n < 3 then
        Inr \<lparr>ordering = [0..<n], score = (if return_score then Some (- 1) else None),
             embedder_calls = [], iterations = 0\<rparr>
      else (case compute_score X score_function dh None False of
          Inl e \<Rightarrow> Inl e
        | Inr score0 \<Rightarrow>
            (case X of
               Sparse n' m' es \<Rightarrow>
                 (case run_loop (sparse_body emb X es dh score_function circular avg_dim
                                   avg_scaling) n_iter (sparse_init n score0 es add_momentum) of
                    Inl e \<Rightarrow> Inl e
                  | Inr st \<Rightarrow> Inr (finish return_score st))
             | Dense rows \<Rightarrow>
                 (case run_loop (dense_body emb X rows dh score_function circular avg_dim
                                   avg_scaling) n_iter (dense_init n score0) of
                    Inl e \<Rightarrow> Inl e
                  | Inr st \<Rightarrow> Inr (finish return_score st)))))"

text \<open>An embedder that answers the same embedding to every call: a collaborator with a
  known answer, for running the solver on concrete inputs.\<close>

definition fixed_embedder :: "real list list \<Rightarrow> embedder" where
  "fixed_embedder embedding X_w n_components = Inr embedding"

section \<open>The score as a sum over the scored pairs\<close>















section \<open>Properties of the score function\<close>










section \<open>The floor of the weight update\<close>

lemma eta_add_cell_first:
  "eta_add_cell dh circular avg_scaling n 0 d
     = max (num_val dh) (real_of_int (if circular then min d (int n - d) else d))"
  by (simp add: eta_add_cell_def Let_def)

lemma eta_add_cell_first_ge: "num_val dh \<le> eta_add_cell dh circular avg_scaling n 0 d"
  by (simp add: eta_add_cell_first)

lemma eta_add_cell_pos:
  assumes "0 < num_val dh"
  shows "0 < eta_add_cell dh circular avg_scaling n dm d"
proof -
  let ?d2 = "max (num_val dh) (real_of_int (if circular then min d (int n - d) else d))"
  have "0 < ?d2" using assms by (simp add: less_max_iff_disj)
  moreover have "0 < sqrt (1 + real dm)" by simp
  ultimately have "0 < ?d2 * 1 / sqrt (1 + real dm)" by simp
  with \<open>0 < ?d2\<close> show ?thesis by (simp add: eta_add_cell_def Let_def)
qed

lemma eta_accumulate_mono:
  assumes "\<And>dm add. dm \<in> set dims \<Longrightarrow> eta_add dm = Inr add
             \<Longrightarrow> length add = length eta \<and> (\<forall>x\<in>set add. 0 \<le> x)"
    and "eta_accumulate eta_add dims eta = Inr eta'"
  shows "length eta' = length eta \<and> (\<forall>i<length eta. eta ! i \<le> eta' ! i)"
  using assms
proof (induction dims arbitrary: eta)
  case Nil
  then show ?case by simp
next
  case (Cons dm dims)
  from Cons.prems(2) obtain add where add: "eta_add dm = Inr add"
    and rest: "eta_accumulate eta_add dims (map2 (+) eta add) = Inr eta'"
    by (auto split: sum.splits)
  from Cons.prems(1)[OF _ add] have len: "length add = length eta" and pos: "\<forall>x\<in>set add. 0 \<le> x"
    by simp_all
  have "length eta' = length (map2 (+) eta add)
      \<and> (\<forall>i<length (map2 (+) eta add). map2 (+) eta add ! i \<le> eta' ! i)"
  proof (rule Cons.IH[OF _ rest])
    fix dm' add' assume "dm' \<in> set dims" "eta_add dm' = Inr add'"
    with Cons.prems(1)[of dm' add'] len
    show "length add' = length (map2 (+) eta add) \<and> (\<forall>x\<in>set add'. 0 \<le> x)" by simp
  qed
  then have l': "length eta' = length eta"
    and up: "\<And>i. i < length eta \<Longrightarrow> map2 (+) eta add ! i \<le> eta' ! i"
    using len by simp_all
  have "eta ! i \<le> eta' ! i" if i: "i < length eta" for i
  proof -
    from i len pos have "0 \<le> add ! i" by (simp add: nth_mem)
    with i len have "eta ! i \<le> map2 (+) eta add ! i" by simp
    also from up[OF i] have "\<dots> \<le> eta' ! i" .
    finally show ?thesis .
  qed
  with l' show ?case by simp
qed

lemma eta_accumulate_floor:
  assumes first: "\<And>add. eta_add 0 = Inr add
             \<Longrightarrow> length add = length eta \<and> (\<forall>x\<in>set add. lo \<le> x)"
    and rest: "\<And>dm add. eta_add dm = Inr add
             \<Longrightarrow> length add = length eta \<and> (\<forall>x\<in>set add. 0 \<le> x)"
    and init: "\<forall>x\<in>set eta. 0 \<le> x"
    and d: "0 < d"
    and run: "eta_accumulate eta_add [0..<d] eta = Inr eta'"
  shows "length eta' = length eta \<and> (\<forall>x\<in>set eta'. lo \<le> x)"
proof -
  from d have split: "[0..<d] = 0 # [Suc 0..<d]" by (simp add: upt_rec)
  with run obtain add where add: "eta_add 0 = Inr add"
    and tl: "eta_accumulate eta_add [Suc 0..<d] (map2 (+) eta add) = Inr eta'"
    by (auto split: sum.splits)
  from first[OF add] have len: "length add = length eta" and lo: "\<forall>x\<in>set add. lo \<le> x"
    by simp_all
  have m: "length eta' = length (map2 (+) eta add)
         \<and> (\<forall>i<length (map2 (+) eta add). map2 (+) eta add ! i \<le> eta' ! i)"
  proof (rule eta_accumulate_mono[OF _ tl])
    fix dm' add' assume "eta_add dm' = Inr add'"
    from rest[OF this] len
    show "length add' = length (map2 (+) eta add) \<and> (\<forall>x\<in>set add'. 0 \<le> x)" by simp
  qed
  have "lo \<le> eta' ! i" if i: "i < length eta" for i
  proof -
    from i len lo init have "lo \<le> eta ! i + add ! i"
      by (metis add_increasing nth_mem)
    also from i len have "\<dots> = map2 (+) eta add ! i" by simp
    also from m i len have "\<dots> \<le> eta' ! i" by simp
    finally show ?thesis .
  qed
  with m len show ?thesis by (auto simp: in_set_conv_nth)
qed

lemma eta_add_sparse_cells:
  assumes "eta_add_sparse embedding es dh circular avg_scaling n dm = Inr add"
    and "\<And>d. P (eta_add_cell dh circular avg_scaling n dm d)"
  shows "length add = length es \<and> (\<forall>x\<in>set add. P x)"
  using assms by (auto simp: eta_add_sparse_def split: sum.splits if_splits)

lemma eta_add_dense_cells:
  assumes "eta_add_dense embedding dh circular avg_scaling n dm = Inr add"
    and "\<And>d. P (eta_add_cell dh circular avg_scaling n dm d)"
  shows "length add = n * n \<and> (\<forall>x\<in>set add. P x)"
  using assms by (auto simp: eta_add_dense_def split: sum.splits if_splits)

lemma eta_add_cell_nonneg:
  "0 < num_val dh \<Longrightarrow> 0 \<le> eta_add_cell dh circular avg_scaling n dm d"
  by (rule less_imp_le) (rule eta_add_cell_pos)

lemma weight_update_sparse_floor:
  assumes "0 < num_val dh" "1 \<le> avg_dim" "3 \<le> n"
    and "weight_update_sparse embedding es dh circular avg_scaling n avg_dim = Inr eta"
  shows "\<forall>w\<in>set eta. num_val dh \<le> w"
proof -
  have "length eta = length (replicate (length es) (0::real)) \<and> (\<forall>x\<in>set eta. num_val dh \<le> x)"
  proof (rule eta_accumulate_floor[OF _ _ _ _ assms(4)[unfolded weight_update_sparse_def]])
    fix add assume "eta_add_sparse embedding es dh circular avg_scaling n 0 = Inr add"
    from eta_add_sparse_cells[OF this, of "\<lambda>x. num_val dh \<le> x"]
    show "length add = length (replicate (length es) (0::real)) \<and> (\<forall>x\<in>set add. num_val dh \<le> x)"
      by (simp add: eta_add_cell_first_ge)
  next
    fix dm add assume "eta_add_sparse embedding es dh circular avg_scaling n dm = Inr add"
    from eta_add_sparse_cells[OF this, of "\<lambda>x. 0 \<le> x"]
    show "length add = length (replicate (length es) (0::real)) \<and> (\<forall>x\<in>set add. 0 \<le> x)"
      by (simp add: eta_add_cell_nonneg[OF assms(1)])
  next
    show "\<forall>x\<in>set (replicate (length es) (0::real)). 0 \<le> x" by simp
  next
    from assms(2,3) show "0 < min avg_dim (n - 1)" by simp
  qed
  then show ?thesis by simp
qed

lemma weight_update_dense_floor:
  assumes "0 < num_val dh" "1 \<le> avg_dim" "3 \<le> n"
    and "weight_update_dense embedding dh circular avg_scaling n avg_dim = Inr eta"
  shows "\<forall>row\<in>set eta. \<forall>w\<in>set row. num_val dh \<le> w"
proof -
  from assms(4) obtain flat where
    flat: "eta_accumulate (eta_add_dense embedding dh circular avg_scaling n)
             [0..<min avg_dim (n - 1)] (identity_flat n) = Inr flat"
    and eta: "eta = reshape n flat"
    by (auto simp: weight_update_dense_def split: sum.splits)
  have fl: "length flat = length (identity_flat n) \<and> (\<forall>x\<in>set flat. num_val dh \<le> x)"
  proof (rule eta_accumulate_floor[OF _ _ _ _ flat])
    fix add assume "eta_add_dense embedding dh circular avg_scaling n 0 = Inr add"
    from eta_add_dense_cells[OF this, of "\<lambda>x. num_val dh \<le> x"]
    show "length add = length (identity_flat n) \<and> (\<forall>x\<in>set add. num_val dh \<le> x)"
      by (simp add: eta_add_cell_first_ge identity_flat_def)
  next
    fix dm add assume "eta_add_dense embedding dh circular avg_scaling n dm = Inr add"
    from eta_add_dense_cells[OF this, of "\<lambda>x. 0 \<le> x"]
    show "length add = length (identity_flat n) \<and> (\<forall>x\<in>set add. 0 \<le> x)"
      by (simp add: eta_add_cell_nonneg[OF assms(1)] identity_flat_def)
  next
    show "\<forall>x\<in>set (identity_flat n). 0 \<le> x" by (auto simp: identity_flat_def)
  next
    from assms(2,3) show "0 < min avg_dim (n - 1)" by simp
  qed
  then have len: "length flat = n * n" by (simp add: identity_flat_def)
  have "a * n + b < n * n" if "a < n" "b < n" for a b
  proof -
    from that have "a * n + b < a * n + n" by simp
    also have "\<dots> = Suc a * n" by simp
    also from that have "\<dots> \<le> n * n" by (metis Suc_leI mult.commute mult_le_mono2)
    finally show ?thesis .
  qed
  with len fl eta show ?thesis by (auto simp: reshape_def)
qed

section \<open>Runs of the solver on concrete inputs\<close>

text \<open>The embedding used below holds, as its two coordinates, the two nontrivial
  eigenvectors of the Laplacian of the path \<open>0 - 2 - 1\<close>, the matrix of the dense run; its
  first coordinate orders the items \<open>0, 2, 1\<close>.\<close>

lemmas upt_eval = upt_rec[of _ "numeral _"] upt_rec[of _ "Suc _"]

lemma emb_column: "column [[-1, 1], [1, 1], [0, -2]] 0 = Inr [-1, 1, 0]"
  by code_simp
lemma emb_argsort: "argsort [-1, 1, 0::real] = [0, 2, 1]"
  by code_simp
lemma emb_d_perm: "d_perm_of [[-1, 1], [1, 1], [0, -2]] 0 = Inr [0, 2, 1]"
  by code_simp

subsection \<open>A dense run\<close>

lemma dense_score_id:
  "compute_score (Dense [[0, 0, 1], [0, 0, 1], [1, 1, 0]]) ''Huber'' (PyInt 1) None False = Inr 8"
  by code_simp
lemma dense_score_cand:
  "compute_score (Dense [[0, 0, 1], [0, 0, 1], [1, 1, 0]]) ''Huber'' (PyInt 1)
     (Some [0, 2, 1]) False = Inr 4"
  by code_simp
lemma dense_eta_add:
  "eta_add_dense [[-1, 1], [1, 1], [0, -2]] (PyInt 1) False True 3 0
   = Inr [1, 2, 1, 2, 1, 1, 1, 1, 1]"
  unfolding eta_add_dense_def emb_d_perm eta_add_cell_first
  by (simp add: upt_eval)
lemma dense_weight_update:
  "weight_update_dense [[-1, 1], [1, 1], [0, -2]] (PyInt 1) False True 3 1
   = Inr [[2, 2, 1], [2, 2, 1], [1, 1, 2]]"
  unfolding weight_update_dense_def
  by (simp add: dense_eta_add identity_flat_def reshape_def upt_eval)

lemma dense_body_run:
  "dense_body (fixed_embedder [[-1, 1], [1, 1], [0, -2]])
     (Dense [[0, 0, 1], [0, 0, 1], [1, 1, 0]]) [[0, 0, 1], [0, 0, 1], [1, 1, 0]]
     (PyInt 1) ''Huber'' False 1 True st
   = Inr (Continue (st\<lparr>calls := calls st
             @ [(reweight_dense [[0, 0, 1], [0, 0, 1], [1, 1, 0]] (eta_mat st), 8)],
           iters := Suc (iters st),
           best_perm := (if 4 < best_score st then [0, 2, 1] else best_perm st),
           eta_mat := [[2, 2, 1], [2, 2, 1], [1, 1, 2]]\<rparr>))"
proof -
  have n: "fst (shape (Dense [[0, 0, 1], [0, 0, 1], [1, 1, 0::real]])) = 3" by simp
  show ?thesis
    by (simp add: dense_body_def Let_def n fixed_embedder_def emb_column emb_argsort
      dense_score_cand dense_weight_update default_dim_def
      del: One_nat_def compute_score.simps shape.simps)
qed


lemma run_loop_numeral:
  "run_loop body (numeral k) st =
     (case body st of
        Inl e \<Rightarrow> Inl e
      | Inr (Break st') \<Rightarrow> Inr st'
      | Inr (Continue st') \<Rightarrow> run_loop body (pred_numeral k) st')"
  by (simp add: numeral_eq_Suc)

lemma run_loop_one:
  "run_loop body 1 st =
     (case body st of
        Inl e \<Rightarrow> Inl e
      | Inr (Break st') \<Rightarrow> Inr st'
      | Inr (Continue st') \<Rightarrow> Inr st')"
  by (simp split: sum.splits step.splits)

lemma dense_init_three:
  assumes "n = 3"
  shows "dense_init n s = \<lparr>best_perm = [0, 1, 2], best_score = s, calls = [], iters = 0,
      eta_mat = [[1, 1, 1], [1, 1, 1], [1, 1, 1]]\<rparr>"
  unfolding assms by (simp add: dense_init_def upt_eval numeral_3_eq_3)

lemma dense_run_one:
  "spectral_eta_trick3 (fixed_embedder [[-1, 1], [1, 1], [0, -2]])
     (Dense [[0, 0, 1], [0, 0, 1], [1, 1, 0]]) 1 (PyInt 1) ''Huber'' True False None 1 True
   = Inr \<lparr>ordering = [0, 2, 1], score = Some 8,
          embedder_calls = [(Dense [[0, 0, 1], [0, 0, 1], [1, 1, 0]], 8)], iterations = 1\<rparr>"
  by (simp add: spectral_eta_trick3_def Let_def dense_score_id run_loop_one dense_body_run
      dense_init_three finish_def reweight_dense_def
      del: One_nat_def compute_score.simps)


subsection \<open>A sparse run\<close>

lemma sparse_score_id:
  "compute_score (Sparse 3 3 [(0, 1, 1), (1, 0, 1), (0, 2, 2), (2, 0, 2), (1, 2, 2), (2, 1, 2)])
     ''Huber'' (PyInt 1) None False = Inr 18"
  by code_simp
lemma sparse_score_cand:
  "compute_score (Sparse 3 3 [(0, 1, 1), (1, 0, 1), (0, 2, 2), (2, 0, 2), (1, 2, 2), (2, 1, 2)])
     ''Huber'' (PyInt 1) (Some [0, 2, 1]) False = Inr 14"
  by code_simp
lemma sparse_eta_add:
  "eta_add_sparse [[-1, 1], [1, 1], [0, -2]]
     [(0, 1, 1), (1, 0, 1), (0, 2, 2), (2, 0, 2), (1, 2, 2), (2, 1, 2)] (PyInt 1) False True 3 0
   = Inr [2, 2, 1, 1, 1, 1]"
  unfolding eta_add_sparse_def emb_d_perm eta_add_cell_first
  by simp
lemma sparse_weight_update:
  "weight_update_sparse [[-1, 1], [1, 1], [0, -2]]
     [(0, 1, 1), (1, 0, 1), (0, 2, 2), (2, 0, 2), (1, 2, 2), (2, 1, 2)] (PyInt 1) False True 3 1
   = Inr [2, 2, 1, 1, 1, 1]"
proof -
  have "[0..<min 1 (3 - 1)] = [0::nat]" by simp
  then show ?thesis
    unfolding weight_update_sparse_def
    by (simp add: sparse_eta_add del: One_nat_def)
qed

lemma sparse_body_continue:
  assumes "best_perm st \<noteq> [0, 2, 1]"
  shows "sparse_body (fixed_embedder [[-1, 1], [1, 1], [0, -2]])
     (Sparse 3 3 [(0, 1, 1), (1, 0, 1), (0, 2, 2), (2, 0, 2), (1, 2, 2), (2, 1, 2)])
     [(0, 1, 1), (1, 0, 1), (0, 2, 2), (2, 0, 2), (1, 2, 2), (2, 1, 2)]
     (PyInt 1) ''Huber'' False 1 True st
   = Inr (Continue (st\<lparr>calls := calls st
             @ [(reweight_sparse
                   (Sparse 3 3 [(0, 1, 1), (1, 0, 1), (0, 2, 2), (2, 0, 2), (1, 2, 2), (2, 1, 2)])
                   [(0, 1, 1), (1, 0, 1), (0, 2, 2), (2, 0, 2), (1, 2, 2), (2, 1, 2)]
                   (eta_vec st), 8)],
           iters := Suc (iters st),
           best_perm := (if 14 < best_score st then [0, 2, 1] else best_perm st),
           eta_vec := [2, 2, 1, 1, 1, 1]\<rparr>))"
  using assms
  by (simp add: sparse_body_def Let_def fixed_embedder_def emb_column emb_argsort
      sparse_score_cand sparse_weight_update default_dim_def
      del: One_nat_def compute_score.simps)

lemma sparse_body_break:
  assumes "best_perm st = [0, 2, 1]"
  shows "sparse_body (fixed_embedder [[-1, 1], [1, 1], [0, -2]])
     (Sparse 3 3 [(0, 1, 1), (1, 0, 1), (0, 2, 2), (2, 0, 2), (1, 2, 2), (2, 1, 2)])
     [(0, 1, 1), (1, 0, 1), (0, 2, 2), (2, 0, 2), (1, 2, 2), (2, 1, 2)]
     (PyInt 1) ''Huber'' False 1 True st
   = Inr (Break (st\<lparr>calls := calls st
             @ [(reweight_sparse
                   (Sparse 3 3 [(0, 1, 1), (1, 0, 1), (0, 2, 2), (2, 0, 2), (1, 2, 2), (2, 1, 2)])
                   [(0, 1, 1), (1, 0, 1), (0, 2, 2), (2, 0, 2), (1, 2, 2), (2, 1, 2)]
                   (eta_vec st), 8)],
           iters := Suc (iters st)\<rparr>))"
  using assms
  by (simp add: sparse_body_def Let_def fixed_embedder_def emb_column emb_argsort
      default_dim_def del: One_nat_def compute_score.simps)

lemma sparse_init_three:
  assumes "n = 3"
  shows "sparse_init n s [(0, 1, 1), (1, 0, 1), (0, 2, 2), (2, 0, 2), (1, 2, 2), (2, 1, 2)] g
   = \<lparr>best_perm = [0, 1, 2], best_score = s, calls = [], iters = 0,
      eta_vec = [1, 1, 1, 1, 1, 1],
      eta_old = (if truthy g then Some [1, 1, 1, 1, 1, 1] else None)\<rparr>"
  unfolding assms by (simp add: sparse_init_def upt_eval numeral_3_eq_3)

lemma sparse_run_two:
  "spectral_eta_trick3 (fixed_embedder [[-1, 1], [1, 1], [0, -2]])
     (Sparse 3 3 [(0, 1, 1), (1, 0, 1), (0, 2, 2), (2, 0, 2), (1, 2, 2), (2, 1, 2)])
     2 (PyInt 1) ''Huber'' True False g 1 True
   = Inr \<lparr>ordering = [0, 2, 1], score = Some 18,
          embedder_calls =
            [(Sparse 3 3 [(0, 1, 1), (1, 0, 1), (0, 2, 2), (2, 0, 2), (1, 2, 2), (2, 1, 2)], 8),
             (Sparse 3 3 [(0, 1, 1/2), (1, 0, 1/2), (0, 2, 2), (2, 0, 2), (1, 2, 2), (2, 1, 2)], 8)],
          iterations = 2\<rparr>"
  by (simp add: spectral_eta_trick3_def Let_def sparse_score_id run_loop_numeral run_loop_one
      sparse_body_continue sparse_body_break sparse_init_three finish_def reweight_sparse_def
      del: One_nat_def compute_score.simps)

section \<open>The momentum argument\<close>

text \<open>The value returned does not depend on \<^verbatim>\<open>add_momentum\<close>: it only decides the initial
  \<open>eta_old\<close>, which no pass reads.\<close>

lemma sparse_body_eta_old:
  "sparse_body emb X es dh score_function circular avg_dim avg_scaling (st\<lparr>eta_old := x\<rparr>)
   = (case sparse_body emb X es dh score_function circular avg_dim avg_scaling st of
        Inl e \<Rightarrow> Inl e
      | Inr (Break t) \<Rightarrow> Inr (Break (t\<lparr>eta_old := x\<rparr>))
      | Inr (Continue t) \<Rightarrow> Inr (Continue (t\<lparr>eta_old := x\<rparr>)))"
  by (simp add: sparse_body_def Let_def split: sum.splits)

lemma run_loop_eta_old:
  "run_loop (sparse_body emb X es dh score_function circular avg_dim avg_scaling) k
     (st\<lparr>eta_old := x\<rparr>)
   = (case run_loop (sparse_body emb X es dh score_function circular avg_dim avg_scaling) k st of
        Inl e \<Rightarrow> Inl e
      | Inr t \<Rightarrow> Inr (t\<lparr>eta_old := x\<rparr>))"
proof (induction k arbitrary: st)
  case 0
  then show ?case by simp
next
  case (Suc k)
  show ?case
    by (simp add: sparse_body_eta_old Suc.IH split: sum.splits step.splits)
qed

lemma momentum_ignored:
  "spectral_eta_trick3 emb X n_iter dh score_function return_score circular add_momentum
       avg_dim avg_scaling
   = spectral_eta_trick3 emb X n_iter dh score_function return_score circular None
       avg_dim avg_scaling"
proof -
  have init: "sparse_init n s es add_momentum
      = (sparse_init n s es None)\<lparr>eta_old := eta_old (sparse_init n s es add_momentum)\<rparr>"
    for n s es
    by (simp add: sparse_init_def)
  have fin: "finish return_score (t\<lparr>eta_old := x\<rparr>) = finish return_score t"
    for t :: sparse_state and x
    by (simp add: finish_def)
  show ?thesis
    unfolding spectral_eta_trick3_def Let_def
    by (subst init) (simp add: run_loop_eta_old fin split: sum.splits matrix.splits
        del: compute_score.simps)
qed

section \<open>Properties of the solver\<close>

text \<open>
  Claim C1 at two concrete inputs. The claim has the best score replaced together with the
  best permutation, so that the score returned is the score of the permutation returned.
  The source assigns only \<^verbatim>\<open>best_perm\<close>. On the dense matrix of the path \<open>0 - 2 - 1\<close>, with
  an embedder whose first coordinate orders the items \<open>0, 2, 1\<close>, one pass returns the
  permutation \<open>[0, 2, 1]\<close>, whose Huber score is \<open>4\<close>, with the score \<open>8\<close> of the identity;
  on a sparse matrix two passes return \<open>[0, 2, 1]\<close>, of score \<open>14\<close>, with the score \<open>18\<close>.
\<close>

theorem best_score_never_replaced:
  "spectral_eta_trick3 (fixed_embedder [[-1, 1], [1, 1], [0, -2]])
     (Dense [[0, 0, 1], [0, 0, 1], [1, 1, 0]]) 1 (PyInt 1) ''Huber'' True False None 1 True
   = Inr \<lparr>ordering = [0, 2, 1], score = Some 8,
          embedder_calls = [(Dense [[0, 0, 1], [0, 0, 1], [1, 1, 0]], 8)], iterations = 1\<rparr>
   \<and> compute_score (Dense [[0, 0, 1], [0, 0, 1], [1, 1, 0]]) ''Huber'' (PyInt 1)
        (Some [0, 2, 1]) False = Inr 4
   \<and> spectral_eta_trick3 (fixed_embedder [[-1, 1], [1, 1], [0, -2]])
        (Sparse 3 3 [(0, 1, 1), (1, 0, 1), (0, 2, 2), (2, 0, 2), (1, 2, 2), (2, 1, 2)])
        2 (PyInt 1) ''Huber'' True False None 1 True
      = Inr \<lparr>ordering = [0, 2, 1], score = Some 18,
          embedder_calls =
            [(Sparse 3 3 [(0, 1, 1), (1, 0, 1), (0, 2, 2), (2, 0, 2), (1, 2, 2), (2, 1, 2)], 8),
             (Sparse 3 3 [(0, 1, 1/2), (1, 0, 1/2), (0, 2, 2), (2, 0, 2), (1, 2, 2), (2, 1, 2)], 8)],
          iterations = 2\<rparr>
   \<and> compute_score
        (Sparse 3 3 [(0, 1, 1), (1, 0, 1), (0, 2, 2), (2, 0, 2), (1, 2, 2), (2, 1, 2)])
        ''Huber'' (PyInt 1) (Some [0, 2, 1]) False = Inr 14"
  by (intro conjI) (rule dense_run_one dense_score_cand sparse_run_two sparse_score_cand)+

text \<open>
  Claim C4. In a pass of either loop on a matrix of size \<open>n \<ge> 3\<close>, with \<^verbatim>\<open>avg_dim\<close> \<open>\<ge> 1\<close>,
  either value of \<^verbatim>\<open>avg_scaling\<close> and of \<^verbatim>\<open>circular\<close>, and a positive \<^verbatim>\<open>dh\<close> (an integer or a
  float), every entry of the weight structure the pass produces is at least \<^verbatim>\<open>dh\<close>, and
  so is not zero.
\<close>

theorem weights_ge_dh:
  assumes "0 < num_val dh" "1 \<le> avg_dim" "3 \<le> fst (shape X)" "3 \<le> fst (shape Xd)"
  shows "(sparse_body emb X es dh score_function circular avg_dim avg_scaling st
            = Inr (Continue st')
          \<longrightarrow> list_all (\<lambda>w. num_val dh \<le> w \<and> w \<noteq> 0) (eta_vec st'))
       \<and> (dense_body emb Xd rows dh score_function circular avg_dim avg_scaling dst
            = Inr (Continue dst')
          \<longrightarrow> list_all (list_all (\<lambda>w. num_val dh \<le> w \<and> w \<noteq> 0)) (eta_mat dst'))"
proof (intro conjI impI)
  assume "sparse_body emb X es dh score_function circular avg_dim avg_scaling st
            = Inr (Continue st')"
  then obtain embedding where
    "weight_update_sparse embedding es dh circular avg_scaling (fst (shape X)) avg_dim
       = Inr (eta_vec st')"
    by (auto simp: sparse_body_def Let_def split: sum.splits if_splits)
  from weight_update_sparse_floor[OF assms(1,2,3) this] assms(1)
  show "list_all (\<lambda>w. num_val dh \<le> w \<and> w \<noteq> 0) (eta_vec st')"
    by (auto simp: list_all_iff)
next
  assume "dense_body emb Xd rows dh score_function circular avg_dim avg_scaling dst
            = Inr (Continue dst')"
  then obtain embedding where
    "weight_update_dense embedding dh circular avg_scaling (fst (shape Xd)) avg_dim
       = Inr (eta_mat dst')"
    by (auto simp: dense_body_def Let_def split: sum.splits if_splits)
  from weight_update_dense_floor[OF assms(1,2,4) this] assms(1)
  show "list_all (list_all (\<lambda>w. num_val dh \<le> w \<and> w \<noteq> 0)) (eta_mat dst')"
    by (fastforce simp: list_all_iff)
qed

theorem weights_ge_dh_witness:
  "0 < num_val (PyInt 1) \<and> (1::nat) \<le> 1
   \<and> 3 \<le> fst (shape (Sparse 3 3
              [(0, 1, 1), (1, 0, 1), (0, 2, 2), (2, 0, 2), (1, 2, 2), (2, 1, 2)]))
   \<and> 3 \<le> fst (shape (Dense [[0, 0, 1], [0, 0, 1], [1, 1, 0]]))
   \<and> sparse_body (fixed_embedder [[-1, 1], [1, 1], [0, -2]])
        (Sparse 3 3 [(0, 1, 1), (1, 0, 1), (0, 2, 2), (2, 0, 2), (1, 2, 2), (2, 1, 2)])
        [(0, 1, 1), (1, 0, 1), (0, 2, 2), (2, 0, 2), (1, 2, 2), (2, 1, 2)]
        (PyInt 1) ''Huber'' False 1 True
        \<lparr>best_perm = [0, 1, 2], best_score = 18, calls = [], iters = 0,
         eta_vec = [1, 1, 1, 1, 1, 1], eta_old = None\<rparr>
      = Inr (Continue
        \<lparr>best_perm = [0, 2, 1], best_score = 18,
         calls = [(Sparse 3 3
           [(0, 1, 1), (1, 0, 1), (0, 2, 2), (2, 0, 2), (1, 2, 2), (2, 1, 2)], 8)],
         iters = 1, eta_vec = [2, 2, 1, 1, 1, 1], eta_old = None\<rparr>)
   \<and> list_all (\<lambda>w. num_val (PyInt 1) \<le> w \<and> w \<noteq> 0) [2, 2, 1, 1, 1, 1]
   \<and> dense_body (fixed_embedder [[-1, 1], [1, 1], [0, -2]])
        (Dense [[0, 0, 1], [0, 0, 1], [1, 1, 0]]) [[0, 0, 1], [0, 0, 1], [1, 1, 0]]
        (PyInt 1) ''Huber'' False 1 True
        \<lparr>best_perm = [0, 1, 2], best_score = 8, calls = [], iters = 0,
         eta_mat = [[1, 1, 1], [1, 1, 1], [1, 1, 1]]\<rparr>
      = Inr (Continue
        \<lparr>best_perm = [0, 2, 1], best_score = 8,
         calls = [(Dense [[0, 0, 1], [0, 0, 1], [1, 1, 0]], 8)], iters = 1,
         eta_mat = [[2, 2, 1], [2, 2, 1], [1, 1, 2]]\<rparr>)
   \<and> list_all (list_all (\<lambda>w. num_val (PyInt 1) \<le> w \<and> w \<noteq> 0))
        [[2, 2, 1], [2, 2, 1], [1, 1, 2]]"
proof -
  let ?Xs = "Sparse 3 3 [(0, 1, 1), (1, 0, 1), (0, 2, 2), (2, 0, 2), (1, 2, 2), (2, 1, 2)]"
  let ?es = "[(0, 1, 1), (1, 0, 1), (0, 2, 2), (2, 0, 2), (1, 2, 2), (2, 1, 2)]
               :: (nat \<times> nat \<times> real) list"
  let ?rows = "[[0, 0, 1], [0, 0, 1], [1, 1, 0]] :: real list list"
  let ?E = "[[-1, 1], [1, 1], [0, -2]] :: real list list"
  let ?st = "\<lparr>best_perm = [0, 1, 2], best_score = 18, calls = [], iters = 0,
         eta_vec = [1, 1, 1, 1, 1, 1], eta_old = None\<rparr>"
  let ?st' = "\<lparr>best_perm = [0, 2, 1], best_score = 18, calls = [(?Xs, 8)],
         iters = 1, eta_vec = [2, 2, 1, 1, 1, 1], eta_old = None\<rparr>"
  let ?dst = "\<lparr>best_perm = [0, 1, 2], best_score = 8, calls = [], iters = 0,
         eta_mat = [[1, 1, 1], [1, 1, 1], [1, 1, 1]]\<rparr>"
  let ?dst' = "\<lparr>best_perm = [0, 2, 1], best_score = 8, calls = [(Dense ?rows, 8)],
         iters = 1, eta_mat = [[2, 2, 1], [2, 2, 1], [1, 1, 2]]\<rparr>"
  have h1: "0 < num_val (PyInt 1)" by simp
  have h2: "(1::nat) \<le> 1" by simp
  have h3: "3 \<le> fst (shape ?Xs)" by simp
  have h4: "3 \<le> fst (shape (Dense ?rows))" by simp
  have s: "sparse_body (fixed_embedder ?E) ?Xs ?es (PyInt 1) ''Huber'' False 1 True ?st
         = Inr (Continue ?st')"
    by (subst sparse_body_continue) (simp_all add: reweight_sparse_def)
  have d: "dense_body (fixed_embedder ?E) (Dense ?rows) ?rows (PyInt 1) ''Huber'' False 1 True ?dst
         = Inr (Continue ?dst')"
    by (subst dense_body_run) (simp add: reweight_dense_def)
  from weights_ge_dh[OF h1 h2 h3 h4, of "fixed_embedder ?E" ?es "''Huber''" False True ?st ?st'
      ?rows ?dst ?dst'] s d
  have "list_all (\<lambda>w. num_val (PyInt 1) \<le> w \<and> w \<noteq> 0) (eta_vec ?st')"
    "list_all (list_all (\<lambda>w. num_val (PyInt 1) \<le> w \<and> w \<noteq> 0)) (eta_mat ?dst')"
    by blast+
  then have "list_all (\<lambda>w. num_val (PyInt 1) \<le> w \<and> w \<noteq> 0) [2, 2, 1, 1, 1, 1]"
    "list_all (list_all (\<lambda>w. num_val (PyInt 1) \<le> w \<and> w \<noteq> 0))
        [[2, 2, 1], [2, 2, 1], [1, 1, 2]]"
    by (simp_all only: sparse_state.simps dense_state.simps)
  with h1 h2 h3 h4 s d show ?thesis by blast
qed

text \<open>
  Claim C5 at a concrete input. The claim blends the fresh weights with the previous ones,
  \<open>(1 - gamma) * raw_next + gamma * previous\<close>. In \<^verbatim>\<open>spectral_eta_trick3\<close> the momentum only
  sets \<^verbatim>\<open>eta_old\<close> before the loop. With \<open>gamma = 1/2\<close>, previous weights all \<open>1\<close> and fresh
  weights \<open>[2, 2, 1, 1, 1, 1]\<close>, the claim's weights are \<open>[3/2, 3/2, 1, 1, 1, 1]\<close>; the second
  call of the embedder gets the entries divided by the fresh weights (\<open>1/2\<close> where the claim
  gives \<open>2/3\<close>).
\<close>

theorem momentum_not_applied:
  "weight_update_sparse [[-1, 1], [1, 1], [0, -2]]
     [(0, 1, 1), (1, 0, 1), (0, 2, 2), (2, 0, 2), (1, 2, 2), (2, 1, 2)] (PyInt 1) False True 3 1
   = Inr [2, 2, 1, 1, 1, 1]
   \<and> eta_vec (sparse_init 3 18
        [(0, 1, 1), (1, 0, 1), (0, 2, 2), (2, 0, 2), (1, 2, 2), (2, 1, 2)] (Some (1/2)))
     = [1, 1, 1, 1, 1, 1]
   \<and> map2 (\<lambda>raw_next previous. (1 - 1/2) * raw_next + 1/2 * previous)
        [2, 2, 1, 1, 1, 1] [1, 1, 1, 1, 1, 1] = [3/2, 3/2, 1, 1, 1, 1 :: real]
   \<and> spectral_eta_trick3 (fixed_embedder [[-1, 1], [1, 1], [0, -2]])
        (Sparse 3 3 [(0, 1, 1), (1, 0, 1), (0, 2, 2), (2, 0, 2), (1, 2, 2), (2, 1, 2)])
        2 (PyInt 1) ''Huber'' True False (Some (1/2)) 1 True
      = Inr \<lparr>ordering = [0, 2, 1], score = Some 18,
          embedder_calls =
            [(Sparse 3 3 [(0, 1, 1), (1, 0, 1), (0, 2, 2), (2, 0, 2), (1, 2, 2), (2, 1, 2)], 8),
             (Sparse 3 3 [(0, 1, 1/2), (1, 0, 1/2), (0, 2, 2), (2, 0, 2), (1, 2, 2), (2, 1, 2)], 8)],
          iterations = 2\<rparr>"
proof (intro conjI)
  show "eta_vec (sparse_init 3 18
        [(0, 1, 1), (1, 0, 1), (0, 2, 2), (2, 0, 2), (1, 2, 2), (2, 1, 2)] (Some (1/2)))
     = [1, 1, 1, 1, 1, 1]"
    by (subst sparse_init_three) simp_all
  show "map2 (\<lambda>raw_next previous. (1 - 1/2) * raw_next + 1/2 * previous)
        [2, 2, 1, 1, 1, 1] [1, 1, 1, 1, 1, 1] = [3/2, 3/2, 1, 1, 1, 1 :: real]"
    by simp
qed (rule sparse_weight_update sparse_run_two)+

text \<open>
  Claim C6. For a square matrix with \<open>n < 3\<close> the solver returns the identity permutation
  \<open>[0..<n]\<close>, the score \<open>-1\<close> when a score is asked for, and has called the embedder zero
  times and entered the loop zero times, whatever the embedder and the other arguments.
\<close>

theorem small_matrix_short_cut:
  assumes "fst (shape X) = snd (shape X)" "fst (shape X) < 3"
  shows "spectral_eta_trick3 emb X n_iter dh score_function return_score circular add_momentum
           avg_dim avg_scaling
       = Inr \<lparr>ordering = [0..<fst (shape X)],
              score = (if return_score then Some (- 1) else None),
              embedder_calls = [], iterations = 0\<rparr>"
  using assms by (simp add: spectral_eta_trick3_def Let_def)

theorem small_matrix_short_cut_witness:
  "fst (shape (Dense [[0, 1], [1, 0]])) = snd (shape (Dense [[0, 1], [1, 0]]))
   \<and> fst (shape (Dense [[0, 1], [1, 0]])) < 3
   \<and> spectral_eta_trick3 (fixed_embedder [[-1], [1]]) (Dense [[0, 1], [1, 0]]) 50 (PyInt 1)
        ''Huber'' True False None 1 True
      = Inr \<lparr>ordering = [0, 1], score = Some (- 1), embedder_calls = [], iterations = 0\<rparr>"
proof -
  have h1: "fst (shape (Dense [[0, 1], [1, 0]])) = snd (shape (Dense [[0, 1], [1, 0]]))"
    by simp
  have h2: "fst (shape (Dense [[0, 1], [1, 0]])) < 3" by simp
  have "[0..<fst (shape (Dense [[0, 1], [1, 0::real]]))] = [0, 1]"
    by (simp add: upt_rec)
  with small_matrix_short_cut[OF h1 h2, of "fixed_embedder [[-1], [1]]" 50 "PyInt 1" "''Huber''"
      True False None 1 True] h1 h2
  show ?thesis by (simp del: shape.simps)
qed

text \<open>
  Claim C9 at concrete inputs. The claim has the dense and the sparse representation of a
  matrix scored alike. The dense path reads the permutation as rank \<open>\<mapsto>\<close> item
  (\<open>X[perm, :][:, perm]\<close>, what the docstring says), the sparse path as item \<open>\<mapsto>\<close> rank
  (\<open>perm[r] - perm[c]\<close>): for the matrix with \<open>X[0][1] = X[1][0] = 1\<close> and the cycle
  \<open>[1, 2, 0]\<close> the scores are \<open>4\<close> and \<open>2\<close>. Only the sparse path coerces \<^verbatim>\<open>dh\<close>: with
  \<open>dh = 1.5\<close> the \<^verbatim>\<open>'R2S'\<close> scores are \<open>4\<close> and \<open>2\<close>, and \<^verbatim>\<open>'Huber'\<close> fails on the dense
  path and gives \<open>6\<close> on the sparse one.
\<close>

theorem dense_sparse_disagree:
  "compute_score (Dense [[0, 1, 0], [1, 0, 0], [0, 0, 0]]) ''1SUM'' (PyInt 1)
     (Some [1, 2, 0]) False = Inr 4
   \<and> compute_score (Sparse 3 3 [(0, 1, 1), (1, 0, 1)]) ''1SUM'' (PyInt 1)
       (Some [1, 2, 0]) False = Inr 2
   \<and> compute_score (Dense [[0, 0, 1], [0, 0, 0], [1, 0, 0]]) ''R2S'' (PyFloat (3/2))
       None False = Inr 4
   \<and> compute_score (Sparse 3 3 [(0, 2, 1), (2, 0, 1)]) ''R2S'' (PyFloat (3/2))
       None False = Inr 2
   \<and> compute_score (Dense [[0, 0, 1], [0, 0, 0], [1, 0, 0]]) ''Huber'' (PyFloat (3/2))
       None False = Inl UFuncTypeError
   \<and> compute_score (Sparse 3 3 [(0, 2, 1), (2, 0, 1)]) ''Huber'' (PyFloat (3/2))
       None False = Inr 6"
proof (intro conjI)
  show "compute_score (Dense [[0, 1, 0], [1, 0, 0], [0, 0, 0]]) ''1SUM'' (PyInt 1)
     (Some [1, 2, 0]) False = Inr 4"
    by code_simp
  show "compute_score (Sparse 3 3 [(0, 1, 1), (1, 0, 1)]) ''1SUM'' (PyInt 1)
       (Some [1, 2, 0]) False = Inr 2"
    by code_simp
  show "compute_score (Dense [[0, 0, 1], [0, 0, 0], [1, 0, 0]]) ''R2S'' (PyFloat (3/2))
       None False = Inr 4"
    by (simp add: permute_dense_def d2diagv_dense_def loss_transform_float_def trunc_def
        toeplitz_def upt_eval power2_eq_square)
  show "compute_score (Sparse 3 3 [(0, 2, 1), (2, 0, 1)]) ''R2S'' (PyFloat (3/2))
       None False = Inr 2"
    by (simp add: d2diag_sparse_def loss_transform_def trunc_def is_in_band_def)
  show "compute_score (Dense [[0, 0, 1], [0, 0, 0], [1, 0, 0]]) ''Huber'' (PyFloat (3/2))
       None False = Inl UFuncTypeError"
    by (simp add: permute_dense_def d2diagv_dense_def)
  show "compute_score (Sparse 3 3 [(0, 2, 1), (2, 0, 1)]) ''Huber'' (PyFloat (3/2))
       None False = Inr 6"
    by (simp add: d2diag_sparse_def loss_transform_def trunc_def is_in_band_def)
qed




end
